theory Spec2Isabelle
  imports Main
begin

section \<open>The bookstore database\<close>

text \<open>
  The three tables of \<^verbatim>\<open>initialize_database\<close>. A table is the list of its rows, in
  insertion order. The columns \<^verbatim>\<open>mid\<close> and \<^verbatim>\<open>bid\<close> of the sale table are named
  \<open>smid\<close> and \<open>sbid\<close> here, since a record field name is global.
  Strings are lists of characters with code points below 256.
\<close>

record member_row =
  mid :: string
  mname :: string
  mphone :: string
  memail :: "string option"

record book_row =
  bid :: string
  btitle :: string
  bprice :: int
  bstock :: int

record sale_row =
  sid :: int
  sdate :: string
  smid :: string
  sbid :: string
  sqty :: int
  sdiscount :: int
  stotal :: int

text \<open>
  \<open>sale_seq\<close> is the entry of the sale table in \<^verbatim>\<open>sqlite_sequence\<close>, which
  \<^verbatim>\<open>AUTOINCREMENT\<close> maintains: the largest \<^verbatim>\<open>sid\<close> ever inserted.
\<close>

record store =
  members :: "member_row list"
  books :: "book_row list"
  sales :: "sale_row list"
  sale_seq :: int

definition empty_store :: store where
  "empty_store = \<lparr>members = [], books = [], sales = [], sale_seq = 0\<rparr>"

subsection \<open>Schema constraints\<close>

text \<open>The three \<^verbatim>\<open>PRIMARY KEY\<close> declarations. The sale table declares no foreign key.\<close>

definition primary_keys :: "store \<Rightarrow> bool" where
  "primary_keys st \<longleftrightarrow>
     distinct (map mid (members st)) \<and> distinct (map bid (books st)) \<and>
     distinct (map sid (sales st))"

subsection \<open>Seeding\<close>

definition insert_or_ignore_member :: "member_row \<Rightarrow> store \<Rightarrow> store" where
  "insert_or_ignore_member m st =
     (if mid m \<in> set (map mid (members st)) then st
      else st\<lparr>members := members st @ [m]\<rparr>)"

definition insert_or_ignore_book :: "book_row \<Rightarrow> store \<Rightarrow> store" where
  "insert_or_ignore_book b st =
     (if bid b \<in> set (map bid (books st)) then st
      else st\<lparr>books := books st @ [b]\<rparr>)"

definition insert_or_ignore_sale :: "sale_row \<Rightarrow> store \<Rightarrow> store" where
  "insert_or_ignore_sale s st =
     (if sid s \<in> set (map sid (sales st)) then st
      else st\<lparr>sales := sales st @ [s], sale_seq := max (sale_seq st) (sid s)\<rparr>)"

definition seed_members :: "member_row list" where
  "seed_members =
     [\<lparr>mid = ''M001'', mname = ''Alice'', mphone = ''0912-345678'',
        memail = Some ''alice@example.com''\<rparr>,
      \<lparr>mid = ''M002'', mname = ''Bob'', mphone = ''0923-456789'',
        memail = Some ''bob@example.com''\<rparr>,
      \<lparr>mid = ''M003'', mname = ''Cathy'', mphone = ''0934-567890'',
        memail = Some ''cathy@example.com''\<rparr>]"

definition seed_books :: "book_row list" where
  "seed_books =
     [\<lparr>bid = ''B001'', btitle = ''Python Programming'', bprice = 600, bstock = 50\<rparr>,
      \<lparr>bid = ''B002'', btitle = ''Data Science Basics'', bprice = 800, bstock = 30\<rparr>,
      \<lparr>bid = ''B003'', btitle = ''Machine Learning Guide'', bprice = 1200, bstock = 20\<rparr>]"

definition seed_sales :: "sale_row list" where
  "seed_sales =
     [\<lparr>sid = 1, sdate = ''2024-01-15'', smid = ''M001'', sbid = ''B001'',
        sqty = 2, sdiscount = 100, stotal = 1100\<rparr>,
      \<lparr>sid = 2, sdate = ''2024-01-16'', smid = ''M002'', sbid = ''B002'',
        sqty = 1, sdiscount = 50, stotal = 750\<rparr>,
      \<lparr>sid = 3, sdate = ''2024-01-17'', smid = ''M001'', sbid = ''B003'',
        sqty = 3, sdiscount = 200, stotal = 3400\<rparr>,
      \<lparr>sid = 4, sdate = ''2024-01-18'', smid = ''M003'', sbid = ''B001'',
        sqty = 1, sdiscount = 0, stotal = 600\<rparr>]"

definition initialize_database :: "store \<Rightarrow> store" where
  "initialize_database st =
     fold insert_or_ignore_sale seed_sales
       (fold insert_or_ignore_book seed_books
          (fold insert_or_ignore_member seed_members st))"

section \<open>Console input\<close>

text \<open>
  The console is the list of the lines still to be read; \<^verbatim>\<open>input\<close> on an empty
  console raises \<^verbatim>\<open>EOFError\<close>. Python's \<^verbatim>\<open>int\<close> on a string is a parameter
  \<open>parse\<close> of every operation that calls it, \<open>None\<close> standing for \<^verbatim>\<open>ValueError\<close>.
\<close>

type_synonym console = "string list"

definition isspace :: "char \<Rightarrow> bool" where
  "isspace c \<longleftrightarrow>
     of_char c \<in> set [9, 10, 11, 12, 13, 28, 29, 30, 31, 32, 133, 160 :: nat]"

definition strip :: "string \<Rightarrow> string" where
  "strip s = rev (dropWhile isspace (rev (dropWhile isspace s)))"

definition DATE_FORMAT_LENGTH :: nat where
  "DATE_FORMAT_LENGTH = 10"

text \<open>
  \<^verbatim>\<open>input_int\<close>: the loop reads lines until one is accepted; it ends without a value
  only when the console is exhausted.
\<close>

fun input_int :: "(string \<Rightarrow> int option) \<Rightarrow> bool \<Rightarrow> bool \<Rightarrow> console \<Rightarrow> (int \<times> console) option" where
  "input_int parse positive_only allow_zero [] = None"
| "input_int parse positive_only allow_zero (l # ls) =
     (case parse l of
        None \<Rightarrow> input_int parse positive_only allow_zero ls
      | Some v \<Rightarrow>
          if positive_only \<and> v \<le> 0 then input_int parse positive_only allow_zero ls
          else if \<not> allow_zero \<and> v < 0 then input_int parse positive_only allow_zero ls
          else Some (v, ls))"

section \<open>Outcomes\<close>

text \<open>
  What an operation prints, or the exception that leaves it. \<open>StorageError\<close> is the
  branch \<^verbatim>\<open>except sqlite3.Error\<close>.
\<close>

datatype error =
    DateFormatError
  | InvalidMemberOrBook
  | InsufficientStock int
  | StorageError
  | InvalidNumber
  | EOFError
  | OverflowError
  | TypeError

record list_row =
  l_sid :: int
  l_mname :: string
  l_sdate :: string

record report_row =
  r_sid :: int
  r_sdate :: string
  r_mname :: string
  r_btitle :: string
  r_bprice :: int
  r_sqty :: int
  r_sdiscount :: int
  r_stotal :: int

datatype success =
    SaleAdded int
  | SaleUpdated int int
  | SaleDeleted int
  | Cancelled
  | Reported "report_row list"

type_synonym outcome = "(error + success) \<times> store \<times> console"

section \<open>Storage layer\<close>

text \<open>An integer parameter is bound as a 64-bit value, or \<^verbatim>\<open>OverflowError\<close> is raised.\<close>

definition fits_integer :: "int \<Rightarrow> bool" where
  "fits_integer x \<longleftrightarrow> - (2 ^ 63) \<le> x \<and> x \<le> 2 ^ 63 - 1"

definition MAX_ROWID :: int where
  "MAX_ROWID = 2 ^ 63 - 1"

definition select_member :: "store \<Rightarrow> string \<Rightarrow> member_row option" where
  "select_member st m = find (\<lambda>r. mid r = m) (members st)"

definition select_book :: "store \<Rightarrow> string \<Rightarrow> book_row option" where
  "select_book st b = find (\<lambda>r. bid r = b) (books st)"

definition select_sale :: "store \<Rightarrow> int \<Rightarrow> sale_row option" where
  "select_sale st i = find (\<lambda>r. sid r = i) (sales st)"

text \<open>
  The row id an \<^verbatim>\<open>AUTOINCREMENT\<close> insert assigns: one more than the largest of the
  row ids in the table and the recorded sequence value; none when the largest
  possible row id has been used.
\<close>

definition new_rowid :: "store \<Rightarrow> int option" where
  "new_rowid st =
     (let top = fold max (map sid (sales st)) (sale_seq st)
      in if MAX_ROWID \<le> top then None else Some (top + 1))"

definition insert_sale :: "store \<Rightarrow> string \<Rightarrow> string \<Rightarrow> string \<Rightarrow> int \<Rightarrow> int \<Rightarrow> int \<Rightarrow> store option" where
  "insert_sale st d m b q disc tot =
     (case new_rowid st of
        None \<Rightarrow> None
      | Some i \<Rightarrow>
          Some (st\<lparr>sales := sales st @
                    [\<lparr>sid = i, sdate = d, smid = m, sbid = b, sqty = q,
                      sdiscount = disc, stotal = tot\<rparr>],
                  sale_seq := i\<rparr>))"

definition update_stock :: "store \<Rightarrow> int \<Rightarrow> string \<Rightarrow> store" where
  "update_stock st q b =
     st\<lparr>books := map (\<lambda>r. if bid r = b then r\<lparr>bstock := bstock r - q\<rparr> else r) (books st)\<rparr>"

definition update_sale_row :: "store \<Rightarrow> int \<Rightarrow> int \<Rightarrow> int \<Rightarrow> store" where
  "update_sale_row st disc tot i =
     st\<lparr>sales := map (\<lambda>r. if sid r = i then r\<lparr>sdiscount := disc, stotal := tot\<rparr> else r)
                     (sales st)\<rparr>"

definition delete_sale_row :: "store \<Rightarrow> int \<Rightarrow> store" where
  "delete_sale_row st i = st\<lparr>sales := filter (\<lambda>r. sid r \<noteq> i) (sales st)\<rparr>"

section \<open>Operations\<close>

definition add_sale :: "(string \<Rightarrow> int option) \<Rightarrow> store \<Rightarrow> console \<Rightarrow> outcome" where
  "add_sale parse st inp =
     (case inp of
        [] \<Rightarrow> (Inl EOFError, st, [])
      | l1 # inp1 \<Rightarrow>
          let d = strip l1 in
          if length d \<noteq> DATE_FORMAT_LENGTH \<or> count_list d (CHR ''-'') \<noteq> 2
          then (Inl DateFormatError, st, inp1)
          else
            (case inp1 of
               [] \<Rightarrow> (Inl EOFError, st, [])
             | l2 # inp2 \<Rightarrow>
                 (case inp2 of
                    [] \<Rightarrow> (Inl EOFError, st, [])
                  | l3 # inp3 \<Rightarrow>
                      let m = strip l2; b = strip l3 in
                      (case (select_member st m, select_book st b) of
                         (Some mem, Some book) \<Rightarrow>
                           (case input_int parse True False inp3 of
                              None \<Rightarrow> (Inl EOFError, st, [])
                            | Some (q, inp4) \<Rightarrow>
                                if bstock book < q
                                then (Inl (InsufficientStock (bstock book)), st, inp4)
                                else
                                  (case input_int parse False True inp4 of
                                     None \<Rightarrow> (Inl EOFError, st, [])
                                   | Some (disc, inp5) \<Rightarrow>
                                       let tot = bprice book * q - disc in
                                       if \<not> (fits_integer q \<and> fits_integer disc \<and>
                                             fits_integer tot)
                                       then (Inl OverflowError, st, inp5)
                                       else
                                         (case insert_sale st d m b q disc tot of
                                            None \<Rightarrow> (Inl StorageError, st, inp5)
                                          | Some st1 \<Rightarrow>
                                              (Inr (SaleAdded tot),
                                               update_stock st1 q b, inp5))))
                       | _ \<Rightarrow> (Inl InvalidMemberOrBook, st, inp3)))))"

definition list_sales :: "store \<Rightarrow> list_row list" where
  "list_sales st =
     sort_key l_sid
       [\<lparr>l_sid = sid s, l_mname = mname m, l_sdate = sdate s\<rparr>.
          s \<leftarrow> sales st, m \<leftarrow> members st, smid s = mid m]"

definition report_rows :: "store \<Rightarrow> report_row list" where
  "report_rows st =
     sort_key r_sid
       [\<lparr>r_sid = sid s, r_sdate = sdate s, r_mname = mname m, r_btitle = btitle b,
          r_bprice = bprice b, r_sqty = sqty s, r_sdiscount = sdiscount s,
          r_stotal = stotal s\<rparr>.
          s \<leftarrow> sales st, m \<leftarrow> members st, smid s = mid m, b \<leftarrow> books st, sbid s = bid b]"

definition show_report :: "store \<Rightarrow> console \<Rightarrow> outcome" where
  "show_report st inp = (Inr (Reported (report_rows st)), st, inp)"

text \<open>
  The selection shared by \<^verbatim>\<open>update_sale\<close> and \<^verbatim>\<open>delete_sale\<close>: the line typed, read
  as a 1-based position in the listing. \<open>Inr None\<close> is the empty line.
\<close>

definition choose_sale :: "(string \<Rightarrow> int option) \<Rightarrow> list_row list \<Rightarrow> string \<Rightarrow> error + int option" where
  "choose_sale parse listing choice =
     (if choice = [] then Inr None
      else
        (case parse choice of
           None \<Rightarrow> Inl InvalidNumber
         | Some n \<Rightarrow>
             let index = n - 1 in
             if index < 0 \<or> index \<ge> int (length listing) then Inl InvalidNumber
             else Inr (Some (l_sid (listing ! nat index)))))"

definition update_sale :: "(string \<Rightarrow> int option) \<Rightarrow> store \<Rightarrow> console \<Rightarrow> outcome" where
  "update_sale parse st inp =
     (case inp of
        [] \<Rightarrow> (Inl EOFError, st, [])
      | choice # inp1 \<Rightarrow>
          (case choose_sale parse (list_sales st) choice of
             Inl e \<Rightarrow> (Inl e, st, inp1)
           | Inr None \<Rightarrow> (Inr Cancelled, st, inp1)
           | Inr (Some i) \<Rightarrow>
               (case input_int parse False True inp1 of
                  None \<Rightarrow> (Inl EOFError, st, [])
                | Some (new_discount, inp2) \<Rightarrow>
                    (case select_sale st i of
                       None \<Rightarrow> (Inl TypeError, st, inp2)
                     | Some sale \<Rightarrow>
                         (case select_book st (sbid sale) of
                            None \<Rightarrow> (Inl TypeError, st, inp2)
                          | Some book \<Rightarrow>
                              let new_total = bprice book * sqty sale - new_discount in
                              if \<not> (fits_integer new_discount \<and> fits_integer new_total)
                              then (Inl OverflowError, st, inp2)
                              else (Inr (SaleUpdated i new_total),
                                    update_sale_row st new_discount new_total i, inp2))))))"

definition delete_sale :: "(string \<Rightarrow> int option) \<Rightarrow> store \<Rightarrow> console \<Rightarrow> outcome" where
  "delete_sale parse st inp =
     (case inp of
        [] \<Rightarrow> (Inl EOFError, st, [])
      | choice # inp1 \<Rightarrow>
          (case choose_sale parse (list_sales st) choice of
             Inl e \<Rightarrow> (Inl e, st, inp1)
           | Inr None \<Rightarrow> (Inr Cancelled, st, inp1)
           | Inr (Some i) \<Rightarrow> (Inr (SaleDeleted i), delete_sale_row st i, inp1)))"

section \<open>A decimal reader for the examples\<close>

fun digit_of :: "char \<Rightarrow> int option" where
  "digit_of c =
     (let n = (of_char c :: nat) in if 48 \<le> n \<and> n \<le> 57 then Some (int n - 48) else None)"

fun digits_from :: "int \<Rightarrow> string \<Rightarrow> int option" where
  "digits_from acc [] = Some acc"
| "digits_from acc (c # cs) =
     (case digit_of c of None \<Rightarrow> None | Some v \<Rightarrow> digits_from (10 * acc + v) cs)"

definition read_decimal :: "string \<Rightarrow> int option" where
  "read_decimal s =
     (case strip s of
        [] \<Rightarrow> None
      | c # cs \<Rightarrow>
          if c = CHR ''-'' then (if cs = [] then None else map_option uminus (digits_from 0 cs))
          else digits_from 0 (c # cs))"

section \<open>Auxiliary facts\<close>

lemma input_int_positive:
  "input_int parse True az inp = Some (v, rest) \<Longrightarrow> 0 < v"
  by (induction inp) (auto split: option.splits if_splits)

lemma find_map_update:
  assumes "\<And>r. key (g r) = key r"
  shows "find (\<lambda>r. key r = k) (map (\<lambda>r. if key r = k then g r else r) xs) =
         map_option g (find (\<lambda>r. key r = k) xs)"
  using assms by (induction xs) auto

lemma fold_max_ge_init: "(a::int) \<le> fold max xs a"
proof (induction xs arbitrary: a)
  case Nil
  show ?case by simp
next
  case (Cons y ys)
  have "a \<le> max y a" by simp
  also have "\<dots> \<le> fold max ys (max y a)" by (rule Cons.IH)
  finally show ?case by simp
qed

lemma fold_max_ge_elem: "x \<in> set xs \<Longrightarrow> (x::int) \<le> fold max xs a"
proof (induction xs arbitrary: a)
  case Nil
  then show ?case by simp
next
  case (Cons y ys)
  show ?case
  proof (cases "x = y")
    case True
    have "y \<le> max y a" by simp
    also have "\<dots> \<le> fold max ys (max y a)" by (rule fold_max_ge_init)
    finally show ?thesis using True by simp
  next
    case False
    with Cons show ?thesis by simp
  qed
qed

lemma new_rowid_fresh:
  assumes "new_rowid st = Some i"
  shows "sale_seq st < i" and "\<And>s. s \<in> set (sales st) \<Longrightarrow> sid s < i" and "i \<le> MAX_ROWID"
proof -
  let ?top = "fold max (map sid (sales st)) (sale_seq st)"
  from assms have i: "i = ?top + 1" and top: "?top < MAX_ROWID"
    by (auto simp: new_rowid_def Let_def split: if_splits)
  show "sale_seq st < i" using fold_max_ge_init [of "sale_seq st" "map sid (sales st)"] i by simp
  show "i \<le> MAX_ROWID" using i top by simp
  fix s assume "s \<in> set (sales st)"
  then have "sid s \<in> set (map sid (sales st))" by simp
  from fold_max_ge_elem [OF this, of "sale_seq st"] show "sid s < i" using i by simp
qed

lemma add_sale_added_cases:
  assumes "add_sale parse st inp = (Inr (SaleAdded tot), st', inp')"
  obtains l1 l2 l3 inp3 mem book q inp4 disc st1 where
    "inp = l1 # l2 # l3 # inp3"
    "length (strip l1) = DATE_FORMAT_LENGTH" "count_list (strip l1) (CHR ''-'') = 2"
    "select_member st (strip l2) = Some mem"
    "select_book st (strip l3) = Some book"
    "input_int parse True False inp3 = Some (q, inp4)"
    "q \<le> bstock book"
    "input_int parse False True inp4 = Some (disc, inp')"
    "tot = bprice book * q - disc"
    "fits_integer q" "fits_integer disc" "fits_integer tot"
    "insert_sale st (strip l1) (strip l2) (strip l3) q disc tot = Some st1"
    "st' = update_stock st1 q (strip l3)"
  using assms unfolding add_sale_def
  by (auto simp: Let_def split: list.splits option.splits if_splits prod.splits)


lemma select_book_update_stock:
  "select_book (update_stock st q b) b =
     map_option (\<lambda>r. r\<lparr>bstock := bstock r - q\<rparr>) (select_book st b)"
  unfolding select_book_def update_stock_def
  by (simp add: find_map_update [where key = bid])

lemma insert_sale_frame:
  assumes "insert_sale st d m b q disc tot = Some st1"
  shows "books st1 = books st" and "members st1 = members st"
  using assms by (auto simp: insert_sale_def split: option.splits)

lemma initialize_database_empty:
  "initialize_database empty_store =
     \<lparr>members = seed_members, books = seed_books, sales = seed_sales, sale_seq = 4\<rparr>"
  by (simp add: initialize_database_def empty_store_def seed_members_def seed_books_def
      seed_sales_def insert_or_ignore_member_def insert_or_ignore_book_def
      insert_or_ignore_sale_def)

lemma insert_sale_result:
  assumes "insert_sale st d m b q disc tot = Some st1"
  shows "new_rowid st = Some (sale_seq st1)"
    and "sales st1 = sales st @
           [\<lparr>sid = sale_seq st1, sdate = d, smid = m, sbid = b, sqty = q,
             sdiscount = disc, stotal = tot\<rparr>]"
  using assms by (auto simp: insert_sale_def split: option.splits)

lemma update_stock_frame:
  "sales (update_stock st q b) = sales st"
  "members (update_stock st q b) = members st"
  "sale_seq (update_stock st q b) = sale_seq st"
  by (simp_all add: update_stock_def)

lemma update_sale_updated_cases:
  assumes "update_sale parse st inp = (Inr (SaleUpdated i tot), st', inp')"
  obtains choice inp1 new_discount sale book where
    "inp = choice # inp1"
    "choose_sale parse (list_sales st) choice = Inr (Some i)"
    "input_int parse False True inp1 = Some (new_discount, inp')"
    "select_sale st i = Some sale"
    "select_book st (sbid sale) = Some book"
    "tot = bprice book * sqty sale - new_discount"
    "fits_integer new_discount" "fits_integer tot"
    "st' = update_sale_row st new_discount tot i"
  using assms unfolding update_sale_def
  by (auto simp: Let_def split: list.splits option.splits if_splits prod.splits sum.splits)

lemma select_sale_update_sale_row:
  "select_sale (update_sale_row st disc tot i) i =
     map_option (\<lambda>r. r\<lparr>sdiscount := disc, stotal := tot\<rparr>) (select_sale st i)"
  unfolding select_sale_def update_sale_row_def
  by (simp add: find_map_update [where key = sid])

lemma concat_map_if:
  "concat (map (\<lambda>m. if P m then [f m] else []) ms) = map f (filter P ms)"
  by (induction ms) auto

lemma list_sales_rows:
  "list_sales st =
     sort_key l_sid
       (concat (map (\<lambda>s. map (\<lambda>m. \<lparr>l_sid = sid s, l_mname = mname m, l_sdate = sdate s\<rparr>)
                           (filter (\<lambda>m. smid s = mid m) (members st)))
                  (sales st)))"
  unfolding list_sales_def by (simp add: concat_map_if)

lemma length_list_sales:
  "length (list_sales st) =
     sum_list (map (\<lambda>s. length (filter (\<lambda>m. smid s = mid m) (members st))) (sales st))"
  unfolding list_sales_rows by (simp add: length_concat comp_def)

lemma set_list_sales_sid:
  "l_sid ` set (list_sales st) =
     sid ` {s \<in> set (sales st). \<exists>m \<in> set (members st). smid s = mid m}"
  unfolding list_sales_rows by (auto simp: image_iff) force

lemma choose_sale_in_listing:
  assumes "choose_sale parse listing choice = Inr (Some i)"
  shows "i \<in> l_sid ` set listing"
proof -
  from assms have ne: "choice \<noteq> []"
    by (auto simp: choose_sale_def split: if_splits)
  with assms obtain n where p: "parse choice = Some n"
    by (cases "parse choice") (auto simp: choose_sale_def)
  with assms ne have b: "\<not> (n - 1 < 0 \<or> n - 1 \<ge> int (length listing))"
    and i: "i = l_sid (listing ! nat (n - 1))"
    by (auto simp: choose_sale_def Let_def split: if_splits)
  from b have "nat (n - 1) < length listing" by linarith
  then have "listing ! nat (n - 1) \<in> set listing" by (rule nth_mem)
  with i show ?thesis by blast
qed

lemma delete_sale_deleted_cases:
  assumes "delete_sale parse st inp = (Inr (SaleDeleted i), st', inp')"
  obtains choice where
    "inp = choice # inp'"
    "choose_sale parse (list_sales st) choice = Inr (Some i)"
    "st' = delete_sale_row st i"
  using assms unfolding delete_sale_def
  by (auto split: list.splits option.splits sum.splits)

lemma length_filter_key_le_one:
  "distinct (map f xs) \<Longrightarrow> length (filter (\<lambda>x. k = f x) xs) \<le> 1"
  by (induction xs) (auto simp: filter_empty_conv image_iff)

lemma sum_list_remove_key:
  assumes "distinct (map f xs)" and "x \<in> set xs"
  shows "sum_list (map g (filter (\<lambda>r. f r \<noteq> f x) xs)) + g x = sum_list (map (g :: 'a \<Rightarrow> nat) xs)"
  using assms
proof (induction xs)
  case Nil
  then show ?case by simp
next
  case (Cons y ys)
  show ?case
  proof (cases "y = x")
    case True
    with Cons.prems have "\<forall>r \<in> set ys. f r \<noteq> f x" by (auto simp: image_iff)
    then have "filter (\<lambda>r. f r \<noteq> f x) ys = ys" by (simp add: filter_id_conv)
    with True show ?thesis by simp
  next
    case False
    with Cons.prems have x: "x \<in> set ys" and d: "distinct (map f ys)" by auto
    from Cons.prems x have "f y \<noteq> f x" by (auto simp: image_iff)
    with Cons.IH [OF d x] show ?thesis by simp
  qed
qed

lemma length_filter_remove_key:
  assumes "distinct (map f xs)" and "x \<in> set xs"
  shows "length (filter (\<lambda>r. f r \<noteq> f x) xs) + 1 = length xs"
  using sum_list_remove_key [OF assms, of "\<lambda>_. 1"] by (simp add: sum_list_triv)

lemma primary_keys_seeded: "primary_keys (initialize_database empty_store)"
  by (simp add: initialize_database_empty primary_keys_def seed_members_def seed_books_def
      seed_sales_def)

lemma add_sale_store_cases:
  assumes "add_sale parse st inp = (r, st', inp')"
  shows "st' = st \<or> (\<exists>tot. r = Inr (SaleAdded tot))"
  using assms unfolding add_sale_def
  by (auto simp: Let_def split: list.splits option.splits if_splits prod.splits)

lemma update_sale_books:
  assumes "update_sale parse st inp = (r, st', inp')"
  shows "books st' = books st"
  using assms unfolding update_sale_def
  by (auto simp: Let_def update_sale_row_def
      split: list.splits option.splits if_splits prod.splits sum.splits)

lemma delete_sale_books:
  assumes "delete_sale parse st inp = (r, st', inp')"
  shows "books st' = books st"
  using assms unfolding delete_sale_def
  by (auto simp: delete_sale_row_def split: list.splits option.splits sum.splits)

lemma find_key_unique:
  assumes "distinct (map f xs)" and "find (\<lambda>r. f r = k) xs = Some x"
    and "r \<in> set xs" and "f r = k"
  shows "r = x"
proof -
  from assms(2) have "x \<in> set xs" "f x = k"
    by (auto simp: find_Some_iff)
  with assms(1,3,4) show ?thesis
    by (auto simp: distinct_map inj_on_def)
qed

section \<open>Creating a sale\<close>

text \<open>
  Claim C1. Whenever \<^verbatim>\<open>add_sale\<close> reports success, the quantity read does not exceed the
  stock of the book looked up, the stock of that book afterwards is the stock before
  minus the quantity and is not negative, and every book row with another \<^verbatim>\<open>bid\<close> is
  unchanged.
\<close>

theorem add_sale_stock:
  assumes "add_sale parse st (l1 # l2 # l3 # inp3) = (Inr (SaleAdded tot), st', inp')"
    and "input_int parse True False inp3 = Some (q, inp4)"
    and "select_book st (strip l3) = Some book"
  shows "q \<le> bstock book \<and>
         select_book st' (strip l3) = Some (book\<lparr>bstock := bstock book - q\<rparr>) \<and>
         0 \<le> bstock book - q \<and>
         books st' =
           map (\<lambda>r. if bid r = strip l3 then r\<lparr>bstock := bstock r - q\<rparr> else r) (books st) \<and>
         length (books st') = length (books st) \<and>
         (\<forall>i < length (books st).
            bid (books st ! i) \<noteq> strip l3 \<longrightarrow> books st' ! i = books st ! i)"
proof -
  from assms(1) obtain mem book' q' inp4' disc st1 where
    bk: "select_book st (strip l3) = Some book'" and
    qq: "input_int parse True False inp3 = Some (q', inp4')" and
    le: "q' \<le> bstock book'" and
    ins: "insert_sale st (strip l1) (strip l2) (strip l3) q' disc tot = Some st1" and
    st': "st' = update_stock st1 q' (strip l3)"
    by (elim add_sale_added_cases) auto
  from bk qq assms(2,3) have [simp]: "book' = book" "q' = q" by simp_all
  have b1: "books st1 = books st" using ins by (rule insert_sale_frame)
  have sel1: "select_book st1 (strip l3) = Some book"
    using bk b1 by (simp add: select_book_def)
  have eq: "books st' =
      map (\<lambda>r. if bid r = strip l3 then r\<lparr>bstock := bstock r - q\<rparr> else r) (books st)"
    using st' b1 by (simp add: update_stock_def)
  have sel': "select_book st' (strip l3) = Some (book\<lparr>bstock := bstock book - q\<rparr>)"
    unfolding st' using sel1 by (simp add: select_book_update_stock)
  from le eq sel' show ?thesis by simp
qed

theorem add_sale_stock_witness:
  "add_sale read_decimal (initialize_database empty_store)
     [''2024-02-01'', ''M001'', ''B001'', ''2'', ''100''] =
     (Inr (SaleAdded 1100),
      \<lparr>members = seed_members,
       books = [\<lparr>bid = ''B001'', btitle = ''Python Programming'', bprice = 600, bstock = 48\<rparr>,
                \<lparr>bid = ''B002'', btitle = ''Data Science Basics'', bprice = 800, bstock = 30\<rparr>,
                \<lparr>bid = ''B003'', btitle = ''Machine Learning Guide'', bprice = 1200,
                  bstock = 20\<rparr>],
       sales = seed_sales @
               [\<lparr>sid = 5, sdate = ''2024-02-01'', smid = ''M001'', sbid = ''B001'', sqty = 2,
                 sdiscount = 100, stotal = 1100\<rparr>],
       sale_seq = 5\<rparr>, []) \<and>
   input_int read_decimal True False [''2'', ''100''] = Some (2, [''100'']) \<and>
   select_book (initialize_database empty_store) (strip ''B001'') =
     Some \<lparr>bid = ''B001'', btitle = ''Python Programming'', bprice = 600, bstock = 50\<rparr> \<and>
   (2::int) \<le> 50 \<and> (0::int) \<le> 50 - 2"
proof -
  let ?st = "initialize_database empty_store"
  have run: "add_sale read_decimal ?st [''2024-02-01'', ''M001'', ''B001'', ''2'', ''100''] =
     (Inr (SaleAdded 1100),
      \<lparr>members = seed_members,
       books = [\<lparr>bid = ''B001'', btitle = ''Python Programming'', bprice = 600, bstock = 48\<rparr>,
                \<lparr>bid = ''B002'', btitle = ''Data Science Basics'', bprice = 800, bstock = 30\<rparr>,
                \<lparr>bid = ''B003'', btitle = ''Machine Learning Guide'', bprice = 1200,
                  bstock = 20\<rparr>],
       sales = seed_sales @
               [\<lparr>sid = 5, sdate = ''2024-02-01'', smid = ''M001'', sbid = ''B001'', sqty = 2,
                 sdiscount = 100, stotal = 1100\<rparr>],
       sale_seq = 5\<rparr>, [])"
    by (simp add: initialize_database_empty add_sale_def strip_def isspace_def
        DATE_FORMAT_LENGTH_def select_member_def select_book_def seed_members_def
        seed_books_def seed_sales_def read_decimal_def fits_integer_def insert_sale_def
        new_rowid_def MAX_ROWID_def update_stock_def Let_def)
  have qty: "input_int read_decimal True False [''2'', ''100''] = Some (2, [''100''])"
    by (simp add: read_decimal_def strip_def isspace_def)
  have bk: "select_book ?st (strip ''B001'') =
     Some \<lparr>bid = ''B001'', btitle = ''Python Programming'', bprice = 600, bstock = 50\<rparr>"
    by (simp add: initialize_database_empty select_book_def seed_books_def strip_def
        isspace_def)
  from add_sale_stock [OF run qty bk] run qty bk show ?thesis by simp
qed

text \<open>
  Claim C2. When the member or the book does not resolve, \<^verbatim>\<open>add_sale\<close> stops with the
  invalid-member-or-book message, and when the quantity read exceeds the stock of the book
  it stops with the insufficient-stock message, which carries the current stock. Whenever
  it stops with either message, the store is the store it started from: no sale row is
  added and no stock is changed.
\<close>

theorem add_sale_failure_atomic:
  "(length (strip l1) = DATE_FORMAT_LENGTH \<and> count_list (strip l1) (CHR ''-'') = 2 \<and>
      (select_member st (strip l2) = None \<or> select_book st (strip l3) = None) \<longrightarrow>
      add_sale parse st (l1 # l2 # l3 # inp3) = (Inl InvalidMemberOrBook, st, inp3)) \<and>
   (length (strip l1) = DATE_FORMAT_LENGTH \<and> count_list (strip l1) (CHR ''-'') = 2 \<and>
      select_member st (strip l2) = Some mem \<and> select_book st (strip l3) = Some book \<and>
      input_int parse True False inp3 = Some (q, inp4) \<and> bstock book < q \<longrightarrow>
      add_sale parse st (l1 # l2 # l3 # inp3) = (Inl (InsufficientStock (bstock book)), st, inp4)) \<and>
   (add_sale parse st inp = (Inl InvalidMemberOrBook, st', inp') \<or>
      add_sale parse st inp = (Inl (InsufficientStock k), st', inp') \<longrightarrow> st' = st)"
proof (intro conjI impI)
  assume "length (strip l1) = DATE_FORMAT_LENGTH \<and> count_list (strip l1) (CHR ''-'') = 2 \<and>
      (select_member st (strip l2) = None \<or> select_book st (strip l3) = None)"
  then show "add_sale parse st (l1 # l2 # l3 # inp3) = (Inl InvalidMemberOrBook, st, inp3)"
    by (auto simp: add_sale_def Let_def split: option.splits)
next
  assume "length (strip l1) = DATE_FORMAT_LENGTH \<and> count_list (strip l1) (CHR ''-'') = 2 \<and>
      select_member st (strip l2) = Some mem \<and> select_book st (strip l3) = Some book \<and>
      input_int parse True False inp3 = Some (q, inp4) \<and> bstock book < q"
  then show "add_sale parse st (l1 # l2 # l3 # inp3) =
      (Inl (InsufficientStock (bstock book)), st, inp4)"
    by (simp add: add_sale_def Let_def)
next
  assume "add_sale parse st inp = (Inl InvalidMemberOrBook, st', inp') \<or>
      add_sale parse st inp = (Inl (InsufficientStock k), st', inp')"
  then show "st' = st"
    unfolding add_sale_def
    by (auto simp: Let_def split: list.splits option.splits if_splits prod.splits)
qed


theorem add_sale_failure_atomic_witness:
  "add_sale read_decimal (initialize_database empty_store)
     [''9999-99-99'', ''M001'', ''B009'', ''1''] =
     (Inl InvalidMemberOrBook, initialize_database empty_store, [''1'']) \<and>
   select_book (initialize_database empty_store) (strip ''B009'') = None \<and>
   add_sale read_decimal (initialize_database empty_store)
     [''2024-02-01'', ''M001'', ''B003'', ''21'', ''0''] =
     (Inl (InsufficientStock 20), initialize_database empty_store, [''0'']) \<and>
   select_book (initialize_database empty_store) (strip ''B003'') =
     Some \<lparr>bid = ''B003'', btitle = ''Machine Learning Guide'', bprice = 1200, bstock = 20\<rparr> \<and>
   input_int read_decimal True False [''21'', ''0''] = Some (21, [''0'']) \<and>
   snd (add_sale read_decimal (initialize_database empty_store)
     [''2024-02-01'', ''M001'', ''B003'', ''21'', ''0'']) =
     (initialize_database empty_store, [''0''])"
proof -
  let ?st = "initialize_database empty_store"
  let ?book = "\<lparr>bid = ''B003'', btitle = ''Machine Learning Guide'', bprice = 1200,
    bstock = 20\<rparr>"
  let ?mem = "\<lparr>mid = ''M001'', mname = ''Alice'', mphone = ''0912-345678'',
    memail = Some ''alice@example.com''\<rparr>"
  have d1: "length (strip ''9999-99-99'') = DATE_FORMAT_LENGTH \<and>
      count_list (strip ''9999-99-99'') (CHR ''-'') = 2"
    by (simp add: strip_def isspace_def DATE_FORMAT_LENGTH_def)
  have d2: "length (strip ''2024-02-01'') = DATE_FORMAT_LENGTH \<and>
      count_list (strip ''2024-02-01'') (CHR ''-'') = 2"
    by (simp add: strip_def isspace_def DATE_FORMAT_LENGTH_def)
  have nobook: "select_book ?st (strip ''B009'') = None"
    by (simp add: initialize_database_empty select_book_def seed_books_def strip_def
        isspace_def)
  have mem: "select_member ?st (strip ''M001'') = Some ?mem"
    by (simp add: initialize_database_empty select_member_def seed_members_def strip_def
        isspace_def)
  have bk: "select_book ?st (strip ''B003'') = Some ?book"
    by (simp add: initialize_database_empty select_book_def seed_books_def strip_def
        isspace_def)
  have qty: "input_int read_decimal True False [''21'', ''0''] = Some (21, [''0''])"
    by (simp add: read_decimal_def strip_def isspace_def)
  have r1: "add_sale read_decimal ?st [''9999-99-99'', ''M001'', ''B009'', ''1''] =
      (Inl InvalidMemberOrBook, ?st, [''1''])"
    using add_sale_failure_atomic
      [of "''9999-99-99''" ?st "''M001''" "''B009''" read_decimal "[''1'']"] d1 nobook
    by blast
  have r2: "add_sale read_decimal ?st [''2024-02-01'', ''M001'', ''B003'', ''21'', ''0''] =
      (Inl (InsufficientStock 20), ?st, [''0''])"
    using add_sale_failure_atomic
      [of "''2024-02-01''" ?st "''M001''" "''B003''" read_decimal "[''21'', ''0'']"
        ?mem ?book 21 "[''0'']"] d2 mem bk qty
    by simp
  obtain r st' inp' where run:
    "add_sale read_decimal ?st [''2024-02-01'', ''M001'', ''B003'', ''21'', ''0''] =
      (r, st', inp')"
    by (cases "add_sale read_decimal ?st [''2024-02-01'', ''M001'', ''B003'', ''21'', ''0'']")
  with r2 have r: "r = Inl (InsufficientStock 20)" and i: "inp' = [''0'']" by simp_all
  have "st' = ?st"
    using add_sale_failure_atomic
      [of _ _ _ _ read_decimal _ _ _ _ _ "[''2024-02-01'', ''M001'', ''B003'', ''21'', ''0'']"
        st' inp' 20] run r
    by blast
  with run i have r3:
    "snd (add_sale read_decimal ?st [''2024-02-01'', ''M001'', ''B003'', ''21'', ''0'']) =
      (?st, [''0''])" by simp
  from r1 nobook r2 bk qty r3 show ?thesis by simp
qed

text \<open>
  Claim C3. Whenever \<^verbatim>\<open>add_sale\<close> reports success, the total it reports and stores is
  the price of the book looked up times the quantity minus the discount (1100 for a price
  of 600, quantity 2 and discount 100); exactly one row is appended to the sale table, and
  its \<^verbatim>\<open>sid\<close> is the row id that \<^verbatim>\<open>AUTOINCREMENT\<close> assigns: larger than the recorded
  sequence value and than every \<^verbatim>\<open>sid\<close> in the table, hence not in use.
\<close>

theorem add_sale_total:
  assumes "add_sale parse st (l1 # l2 # l3 # inp3) = (Inr (SaleAdded tot), st', inp')"
    and "input_int parse True False inp3 = Some (q, inp4)"
    and "input_int parse False True inp4 = Some (disc, inp5)"
    and "select_book st (strip l3) = Some book"
  shows "tot = bprice book * q - disc \<and>
         sales st' = sales st @
           [\<lparr>sid = sale_seq st', sdate = strip l1, smid = strip l2, sbid = strip l3,
             sqty = q, sdiscount = disc, stotal = bprice book * q - disc\<rparr>] \<and>
         new_rowid st = Some (sale_seq st') \<and>
         sale_seq st < sale_seq st' \<and>
         (\<forall>s \<in> set (sales st). sid s < sale_seq st') \<and>
         sale_seq st' \<notin> sid ` set (sales st) \<and>
         (bprice book = 600 \<and> q = 2 \<and> disc = 100 \<longrightarrow> tot = 1100)"
proof -
  from assms(1) obtain book' q' inp4' disc' st1 where
    bk: "select_book st (strip l3) = Some book'" and
    qq: "input_int parse True False inp3 = Some (q', inp4')" and
    dd: "input_int parse False True inp4' = Some (disc', inp')" and
    tot: "tot = bprice book' * q' - disc'" and
    ins: "insert_sale st (strip l1) (strip l2) (strip l3) q' disc' tot = Some st1" and
    st': "st' = update_stock st1 q' (strip l3)"
    by (elim add_sale_added_cases) auto
  from bk qq assms(2,4) have [simp]: "book' = book" "q' = q" "inp4' = inp4" by simp_all
  from dd assms(3) have [simp]: "disc' = disc" by simp
  have seq: "sale_seq st' = sale_seq st1" unfolding st' by (simp add: update_stock_frame)
  have rid: "new_rowid st = Some (sale_seq st')"
    using insert_sale_result(1) [OF ins] seq by simp
  have rows: "sales st' = sales st @
           [\<lparr>sid = sale_seq st', sdate = strip l1, smid = strip l2, sbid = strip l3,
             sqty = q, sdiscount = disc, stotal = bprice book * q - disc\<rparr>]"
    using insert_sale_result(2) [OF ins] seq tot unfolding st'
    by (simp add: update_stock_frame)
  have above: "\<forall>s \<in> set (sales st). sid s < sale_seq st'"
    using new_rowid_fresh(2) [OF rid] by blast
  then have fresh: "sale_seq st' \<notin> sid ` set (sales st)" by auto
  from tot rows rid new_rowid_fresh(1) [OF rid] above fresh show ?thesis by simp
qed

theorem add_sale_total_witness:
  "add_sale read_decimal (initialize_database empty_store)
     [''2024-02-01'', ''M001'', ''B001'', ''2'', ''100''] =
     (Inr (SaleAdded 1100),
      \<lparr>members = seed_members,
       books = [\<lparr>bid = ''B001'', btitle = ''Python Programming'', bprice = 600, bstock = 48\<rparr>,
                \<lparr>bid = ''B002'', btitle = ''Data Science Basics'', bprice = 800, bstock = 30\<rparr>,
                \<lparr>bid = ''B003'', btitle = ''Machine Learning Guide'', bprice = 1200,
                  bstock = 20\<rparr>],
       sales = seed_sales @
               [\<lparr>sid = 5, sdate = ''2024-02-01'', smid = ''M001'', sbid = ''B001'', sqty = 2,
                 sdiscount = 100, stotal = 1100\<rparr>],
       sale_seq = 5\<rparr>, []) \<and>
   input_int read_decimal True False [''2'', ''100''] = Some (2, [''100'']) \<and>
   input_int read_decimal False True [''100''] = Some (100, []) \<and>
   select_book (initialize_database empty_store) (strip ''B001'') =
     Some \<lparr>bid = ''B001'', btitle = ''Python Programming'', bprice = 600, bstock = 50\<rparr> \<and>
   (1100::int) = 600 * 2 - 100 \<and>
   new_rowid (initialize_database empty_store) = Some 5"
proof -
  let ?st = "initialize_database empty_store"
  have run: "add_sale read_decimal ?st [''2024-02-01'', ''M001'', ''B001'', ''2'', ''100''] =
     (Inr (SaleAdded 1100),
      \<lparr>members = seed_members,
       books = [\<lparr>bid = ''B001'', btitle = ''Python Programming'', bprice = 600, bstock = 48\<rparr>,
                \<lparr>bid = ''B002'', btitle = ''Data Science Basics'', bprice = 800, bstock = 30\<rparr>,
                \<lparr>bid = ''B003'', btitle = ''Machine Learning Guide'', bprice = 1200,
                  bstock = 20\<rparr>],
       sales = seed_sales @
               [\<lparr>sid = 5, sdate = ''2024-02-01'', smid = ''M001'', sbid = ''B001'', sqty = 2,
                 sdiscount = 100, stotal = 1100\<rparr>],
       sale_seq = 5\<rparr>, [])"
    by (simp add: initialize_database_empty add_sale_def strip_def isspace_def
        DATE_FORMAT_LENGTH_def select_member_def select_book_def seed_members_def
        seed_books_def seed_sales_def read_decimal_def fits_integer_def insert_sale_def
        new_rowid_def MAX_ROWID_def update_stock_def Let_def)
  have qty: "input_int read_decimal True False [''2'', ''100''] = Some (2, [''100''])"
    by (simp add: read_decimal_def strip_def isspace_def)
  have dis: "input_int read_decimal False True [''100''] = Some (100, [])"
    by (simp add: read_decimal_def strip_def isspace_def)
  have bk: "select_book ?st (strip ''B001'') =
     Some \<lparr>bid = ''B001'', btitle = ''Python Programming'', bprice = 600, bstock = 50\<rparr>"
    by (simp add: initialize_database_empty select_book_def seed_books_def strip_def
        isspace_def)
  from add_sale_total [OF run qty dis bk] run qty dis bk show ?thesis by simp
qed

text \<open>
  Claim C6. \<^verbatim>\<open>add_sale\<close> stops with the date-format message exactly when the date, the
  first line stripped of surrounding white space, does not have 10 characters and two
  hyphens; it then leaves the store as it was and reads no further line. No other test is
  made on the date: the string 9999-99-99 passes.
\<close>

theorem add_sale_date_format:
  "(fst (add_sale parse st (l1 # inp1)) = Inl DateFormatError \<longleftrightarrow>
      \<not> (length (strip l1) = 10 \<and> count_list (strip l1) (CHR ''-'') = 2)) \<and>
   (\<not> (length (strip l1) = 10 \<and> count_list (strip l1) (CHR ''-'') = 2) \<longrightarrow>
      add_sale parse st (l1 # inp1) = (Inl DateFormatError, st, inp1)) \<and>
   fst (add_sale parse st (''9999-99-99'' # inp1)) \<noteq> Inl DateFormatError"
proof (intro conjI impI)
  show "fst (add_sale parse st (l1 # inp1)) = Inl DateFormatError \<longleftrightarrow>
      \<not> (length (strip l1) = 10 \<and> count_list (strip l1) (CHR ''-'') = 2)"
    unfolding add_sale_def
    by (auto simp: Let_def DATE_FORMAT_LENGTH_def
        split: list.splits option.splits if_splits prod.splits)
next
  assume "\<not> (length (strip l1) = 10 \<and> count_list (strip l1) (CHR ''-'') = 2)"
  then show "add_sale parse st (l1 # inp1) = (Inl DateFormatError, st, inp1)"
    by (auto simp: add_sale_def Let_def DATE_FORMAT_LENGTH_def)
next
  have ok: "length (strip ''9999-99-99'') = 10 \<and>
      count_list (strip ''9999-99-99'') (CHR ''-'') = 2"
    by (simp add: strip_def isspace_def)
  show "fst (add_sale parse st (''9999-99-99'' # inp1)) \<noteq> Inl DateFormatError"
    unfolding add_sale_def using ok
    by (auto simp: Let_def DATE_FORMAT_LENGTH_def
        split: list.splits option.splits if_splits prod.splits)
qed

theorem add_sale_date_format_witness:
  "\<not> (length (strip ''2024/02/01'') = 10 \<and> count_list (strip ''2024/02/01'') (CHR ''-'') = 2) \<and>
   add_sale read_decimal (initialize_database empty_store)
     [''2024/02/01'', ''M001'', ''B001'', ''2'', ''100''] =
     (Inl DateFormatError, initialize_database empty_store,
      [''M001'', ''B001'', ''2'', ''100'']) \<and>
   \<not> (length (strip ''2024-2-1'') = 10 \<and> count_list (strip ''2024-2-1'') (CHR ''-'') = 2) \<and>
   fst (add_sale read_decimal (initialize_database empty_store) [''2024-2-1'']) =
     Inl DateFormatError"
proof -
  have bad: "\<not> (length (strip ''2024/02/01'') = 10 \<and>
      count_list (strip ''2024/02/01'') (CHR ''-'') = 2)"
    by (simp add: strip_def isspace_def)
  have short: "\<not> (length (strip ''2024-2-1'') = 10 \<and>
      count_list (strip ''2024-2-1'') (CHR ''-'') = 2)"
    by (simp add: strip_def isspace_def)
  from add_sale_date_format
      [of read_decimal "initialize_database empty_store" "''2024/02/01''"
        "[''M001'', ''B001'', ''2'', ''100'']"] bad
  have r1: "add_sale read_decimal (initialize_database empty_store)
     [''2024/02/01'', ''M001'', ''B001'', ''2'', ''100''] =
     (Inl DateFormatError, initialize_database empty_store,
      [''M001'', ''B001'', ''2'', ''100''])"
    by blast
  from add_sale_date_format
      [of read_decimal "initialize_database empty_store" "''2024-2-1''" "[]"] short
  have r2: "fst (add_sale read_decimal (initialize_database empty_store) [''2024-2-1'']) =
     Inl DateFormatError"
    by blast
  from bad r1 short r2 show ?thesis by simp
qed

section \<open>Updating the discount of a sale\<close>

text \<open>
  Claim C4. Whenever \<^verbatim>\<open>update_sale\<close> reports success, the total it reports and stores is
  the price, at that moment, of the book the sale refers to times the quantity stored in
  the sale minus the discount read. In the sale table only the columns \<^verbatim>\<open>sdiscount\<close> and
  \<^verbatim>\<open>stotal\<close> of the rows with the chosen \<^verbatim>\<open>sid\<close> change; the book and member tables are
  as before.
\<close>

theorem update_sale_total:
  assumes "update_sale parse st (choice # inp1) = (Inr (SaleUpdated i new_total), st', inp')"
    and "input_int parse False True inp1 = Some (new_discount, inp2)"
    and "select_sale st i = Some sale"
    and "select_book st (sbid sale) = Some book"
  shows "new_total = bprice book * sqty sale - new_discount \<and>
         select_sale st' i =
           Some (sale\<lparr>sdiscount := new_discount,
                      stotal := bprice book * sqty sale - new_discount\<rparr>) \<and>
         sales st' =
           map (\<lambda>r. if sid r = i then r\<lparr>sdiscount := new_discount, stotal := new_total\<rparr> else r)
             (sales st) \<and>
         map sid (sales st') = map sid (sales st) \<and>
         map sdate (sales st') = map sdate (sales st) \<and>
         map smid (sales st') = map smid (sales st) \<and>
         map sbid (sales st') = map sbid (sales st) \<and>
         map sqty (sales st') = map sqty (sales st) \<and>
         (\<forall>k < length (sales st). sid (sales st ! k) \<noteq> i \<longrightarrow> sales st' ! k = sales st ! k) \<and>
         books st' = books st \<and> members st' = members st \<and> sale_seq st' = sale_seq st"
proof -
  from assms(1) obtain nd sale' book' where
    dd: "input_int parse False True inp1 = Some (nd, inp')" and
    sl: "select_sale st i = Some sale'" and
    bk: "select_book st (sbid sale') = Some book'" and
    tot: "new_total = bprice book' * sqty sale' - nd" and
    st': "st' = update_sale_row st nd new_total i"
    by (elim update_sale_updated_cases) auto
  from dd sl assms(2,3) have [simp]: "nd = new_discount" "sale' = sale" by simp_all
  from bk assms(4) have [simp]: "book' = book" by simp
  have rows: "sales st' =
      map (\<lambda>r. if sid r = i then r\<lparr>sdiscount := new_discount, stotal := new_total\<rparr> else r)
        (sales st)"
    using st' by (simp add: update_sale_row_def)
  have sel: "select_sale st' i =
      Some (sale\<lparr>sdiscount := new_discount, stotal := bprice book * sqty sale - new_discount\<rparr>)"
    unfolding st' using sl tot by (simp add: select_sale_update_sale_row)
  have frame: "books st' = books st" "members st' = members st" "sale_seq st' = sale_seq st"
    using st' by (simp_all add: update_sale_row_def)
  have cols: "map sid (sales st') = map sid (sales st)"
    "map sdate (sales st') = map sdate (sales st)"
    "map smid (sales st') = map smid (sales st)"
    "map sbid (sales st') = map sbid (sales st)"
    "map sqty (sales st') = map sqty (sales st)"
    unfolding rows by (simp_all add: comp_def if_distrib cong: if_cong)
  have others: "\<forall>k < length (sales st). sid (sales st ! k) \<noteq> i \<longrightarrow> sales st' ! k = sales st ! k"
    unfolding rows by simp
  from tot sel rows cols others frame show ?thesis by simp
qed


lemma list_sales_seeded:
  "list_sales (initialize_database empty_store) =
     [\<lparr>l_sid = 1, l_mname = ''Alice'', l_sdate = ''2024-01-15''\<rparr>,
      \<lparr>l_sid = 2, l_mname = ''Bob'', l_sdate = ''2024-01-16''\<rparr>,
      \<lparr>l_sid = 3, l_mname = ''Alice'', l_sdate = ''2024-01-17''\<rparr>,
      \<lparr>l_sid = 4, l_mname = ''Cathy'', l_sdate = ''2024-01-18''\<rparr>]"
  by (simp add: initialize_database_empty list_sales_def seed_sales_def seed_members_def)

theorem update_sale_total_witness:
  "update_sale read_decimal (initialize_database empty_store) [''3'', ''500''] =
     (Inr (SaleUpdated 3 3100),
      \<lparr>members = seed_members, books = seed_books,
       sales =
         [\<lparr>sid = 1, sdate = ''2024-01-15'', smid = ''M001'', sbid = ''B001'',
            sqty = 2, sdiscount = 100, stotal = 1100\<rparr>,
          \<lparr>sid = 2, sdate = ''2024-01-16'', smid = ''M002'', sbid = ''B002'',
            sqty = 1, sdiscount = 50, stotal = 750\<rparr>,
          \<lparr>sid = 3, sdate = ''2024-01-17'', smid = ''M001'', sbid = ''B003'',
            sqty = 3, sdiscount = 500, stotal = 3100\<rparr>,
          \<lparr>sid = 4, sdate = ''2024-01-18'', smid = ''M003'', sbid = ''B001'',
            sqty = 1, sdiscount = 0, stotal = 600\<rparr>],
       sale_seq = 4\<rparr>, []) \<and>
   input_int read_decimal False True [''500''] = Some (500, []) \<and>
   select_sale (initialize_database empty_store) 3 =
     Some \<lparr>sid = 3, sdate = ''2024-01-17'', smid = ''M001'', sbid = ''B003'',
            sqty = 3, sdiscount = 200, stotal = 3400\<rparr> \<and>
   select_book (initialize_database empty_store) ''B003'' =
     Some \<lparr>bid = ''B003'', btitle = ''Machine Learning Guide'', bprice = 1200, bstock = 20\<rparr> \<and>
   (3100::int) = 1200 * 3 - 500"
proof -
  let ?st = "initialize_database empty_store"
  let ?sale = "\<lparr>sid = 3, sdate = ''2024-01-17'', smid = ''M001'', sbid = ''B003'',
            sqty = 3, sdiscount = 200, stotal = 3400\<rparr>"
  let ?book = "\<lparr>bid = ''B003'', btitle = ''Machine Learning Guide'', bprice = 1200,
            bstock = 20\<rparr>"
  have dis: "input_int read_decimal False True [''500''] = Some (500, [])"
    by (simp add: read_decimal_def strip_def isspace_def)
  have sl: "select_sale ?st 3 = Some ?sale"
    by (simp add: initialize_database_empty select_sale_def seed_sales_def)
  have bk: "select_book ?st (sbid ?sale) = Some ?book"
    by (simp add: initialize_database_empty select_book_def seed_books_def)
  have run: "update_sale read_decimal ?st [''3'', ''500''] =
     (Inr (SaleUpdated 3 3100),
      \<lparr>members = seed_members, books = seed_books,
       sales =
         [\<lparr>sid = 1, sdate = ''2024-01-15'', smid = ''M001'', sbid = ''B001'',
            sqty = 2, sdiscount = 100, stotal = 1100\<rparr>,
          \<lparr>sid = 2, sdate = ''2024-01-16'', smid = ''M002'', sbid = ''B002'',
            sqty = 1, sdiscount = 50, stotal = 750\<rparr>,
          \<lparr>sid = 3, sdate = ''2024-01-17'', smid = ''M001'', sbid = ''B003'',
            sqty = 3, sdiscount = 500, stotal = 3100\<rparr>,
          \<lparr>sid = 4, sdate = ''2024-01-18'', smid = ''M003'', sbid = ''B001'',
            sqty = 1, sdiscount = 0, stotal = 600\<rparr>],
       sale_seq = 4\<rparr>, [])"
    unfolding update_sale_def list_sales_seeded
    apply (simp add: choose_sale_def read_decimal_def strip_def isspace_def Let_def sl
        bk [simplified] fits_integer_def)
    apply (simp add: update_sale_row_def initialize_database_empty seed_sales_def)
    done
  from update_sale_total [OF run dis sl bk] run dis sl bk show ?thesis by simp
qed

section \<open>Deleting a sale\<close>

text \<open>
  Claim C5. Whenever \<^verbatim>\<open>delete_sale\<close> reports success on a store whose primary keys are
  unique, the sale table loses exactly the row with the chosen \<^verbatim>\<open>sid\<close>: the table and
  the listing of \<^verbatim>\<open>list_sales\<close> are each shorter by one, the \<^verbatim>\<open>sid\<close> is no longer in
  either, and the book table (stock included) and the member table are as before.
\<close>

theorem delete_sale_removes_one:
  assumes "delete_sale parse st inp = (Inr (SaleDeleted i), st', inp')"
    and "primary_keys st"
  shows "sales st' = filter (\<lambda>r. sid r \<noteq> i) (sales st) \<and>
         i \<in> sid ` set (sales st) \<and>
         i \<notin> sid ` set (sales st') \<and>
         length (sales st') + 1 = length (sales st) \<and>
         i \<in> l_sid ` set (list_sales st) \<and>
         i \<notin> l_sid ` set (list_sales st') \<and>
         length (list_sales st') + 1 = length (list_sales st) \<and>
         books st' = books st \<and> members st' = members st \<and> sale_seq st' = sale_seq st"
proof -
  from assms(1) obtain choice where
    ch: "choose_sale parse (list_sales st) choice = Inr (Some i)" and
    st': "st' = delete_sale_row st i"
    by (elim delete_sale_deleted_cases)
  from assms(2) have dm: "distinct (map mid (members st))" and ds: "distinct (map sid (sales st))"
    by (simp_all add: primary_keys_def)
  have rows: "sales st' = filter (\<lambda>r. sid r \<noteq> i) (sales st)"
    and frame: "books st' = books st" "members st' = members st" "sale_seq st' = sale_seq st"
    using st' by (simp_all add: delete_sale_row_def)
  have listed: "i \<in> l_sid ` set (list_sales st)"
    using ch by (rule choose_sale_in_listing)
  then obtain s m where s: "s \<in> set (sales st)" "sid s = i"
    and m: "m \<in> set (members st)" "smid s = mid m"
    unfolding set_list_sales_sid by auto
  have present: "i \<in> sid ` set (sales st)" using s by auto
  have gone: "i \<notin> sid ` set (sales st')" unfolding rows by auto
  have one: "length (sales st') + 1 = length (sales st)"
    unfolding rows using length_filter_remove_key [OF ds s(1)] s(2) by simp
  have unlisted: "i \<notin> l_sid ` set (list_sales st')"
    unfolding set_list_sales_sid rows by auto
  let ?g = "\<lambda>s. length (filter (\<lambda>m. smid s = mid m) (members st))"
  have "?g s \<le> 1" using dm by (rule length_filter_key_le_one)
  moreover have "0 < ?g s" using m by (auto simp: length_greater_0_conv filter_empty_conv)
  ultimately have gs: "?g s = 1" by linarith
  have listing: "length (list_sales st') + 1 = length (list_sales st)"
    unfolding length_list_sales rows frame
    using sum_list_remove_key [OF ds s(1), of ?g] s(2) gs by simp
  from rows present gone one listed unlisted listing frame show ?thesis by simp
qed


theorem delete_sale_removes_one_witness:
  "delete_sale read_decimal (initialize_database empty_store) [''2''] =
     (Inr (SaleDeleted 2),
      \<lparr>members = seed_members, books = seed_books,
       sales =
         [\<lparr>sid = 1, sdate = ''2024-01-15'', smid = ''M001'', sbid = ''B001'',
            sqty = 2, sdiscount = 100, stotal = 1100\<rparr>,
          \<lparr>sid = 3, sdate = ''2024-01-17'', smid = ''M001'', sbid = ''B003'',
            sqty = 3, sdiscount = 200, stotal = 3400\<rparr>,
          \<lparr>sid = 4, sdate = ''2024-01-18'', smid = ''M003'', sbid = ''B001'',
            sqty = 1, sdiscount = 0, stotal = 600\<rparr>],
       sale_seq = 4\<rparr>, []) \<and>
   primary_keys (initialize_database empty_store) \<and>
   length (sales (initialize_database empty_store)) = 4 \<and>
   length (list_sales (initialize_database empty_store)) = 4 \<and>
   length (list_sales
     \<lparr>members = seed_members, books = seed_books,
       sales =
         [\<lparr>sid = 1, sdate = ''2024-01-15'', smid = ''M001'', sbid = ''B001'',
            sqty = 2, sdiscount = 100, stotal = 1100\<rparr>,
          \<lparr>sid = 3, sdate = ''2024-01-17'', smid = ''M001'', sbid = ''B003'',
            sqty = 3, sdiscount = 200, stotal = 3400\<rparr>,
          \<lparr>sid = 4, sdate = ''2024-01-18'', smid = ''M003'', sbid = ''B001'',
            sqty = 1, sdiscount = 0, stotal = 600\<rparr>],
       sale_seq = 4\<rparr>) = 3"
proof -
  let ?st = "initialize_database empty_store"
  let ?st' = "\<lparr>members = seed_members, books = seed_books,
       sales =
         [\<lparr>sid = 1, sdate = ''2024-01-15'', smid = ''M001'', sbid = ''B001'',
            sqty = 2, sdiscount = 100, stotal = 1100\<rparr>,
          \<lparr>sid = 3, sdate = ''2024-01-17'', smid = ''M001'', sbid = ''B003'',
            sqty = 3, sdiscount = 200, stotal = 3400\<rparr>,
          \<lparr>sid = 4, sdate = ''2024-01-18'', smid = ''M003'', sbid = ''B001'',
            sqty = 1, sdiscount = 0, stotal = 600\<rparr>],
       sale_seq = 4\<rparr>"
  have run: "delete_sale read_decimal ?st [''2''] = (Inr (SaleDeleted 2), ?st', [])"
    unfolding delete_sale_def list_sales_seeded
    apply (simp add: choose_sale_def read_decimal_def strip_def isspace_def Let_def)
    apply (simp add: delete_sale_row_def initialize_database_empty seed_sales_def)
    done
  have n: "length (sales ?st) = 4" "length (list_sales ?st) = 4"
    by (simp_all add: list_sales_seeded) (simp add: initialize_database_empty seed_sales_def)
  from delete_sale_removes_one [OF run primary_keys_seeded]
  have "length (list_sales ?st') + 1 = length (list_sales ?st)" by blast
  with n have "length (list_sales ?st') = 3" by linarith
  with run primary_keys_seeded n show ?thesis by simp
qed

section \<open>Stock is never negative\<close>

text \<open>
  Claim C7. On a store whose book ids are unique and whose stocks are all non-negative,
  every stock is non-negative after \<^verbatim>\<open>add_sale\<close>, whatever its outcome, and the book ids
  are as before. \<^verbatim>\<open>add_sale\<close> either leaves the book table as it was or subtracts from
  the stock of the book looked up a positive quantity that does not exceed it;
  \<^verbatim>\<open>update_sale\<close>, \<^verbatim>\<open>delete_sale\<close> and \<^verbatim>\<open>show_report\<close> never change the book table.
\<close>

theorem stock_never_negative:
  assumes "distinct (map bid (books st))"
    and "\<forall>b \<in> set (books st). 0 \<le> bstock b"
  shows "(add_sale parse st inp = (r, st', inp') \<longrightarrow>
            (\<forall>b \<in> set (books st'). 0 \<le> bstock b) \<and>
            map bid (books st') = map bid (books st) \<and>
            (books st' = books st \<or>
             (\<exists>k q book. select_book st k = Some book \<and> 0 < q \<and> q \<le> bstock book \<and>
                books st' =
                  map (\<lambda>r. if bid r = k then r\<lparr>bstock := bstock r - q\<rparr> else r) (books st)))) \<and>
         (update_sale parse st inp = (r, st', inp') \<longrightarrow> books st' = books st) \<and>
         (delete_sale parse st inp = (r, st', inp') \<longrightarrow> books st' = books st) \<and>
         (show_report st inp = (r, st', inp') \<longrightarrow> books st' = books st)"
proof (intro conjI impI)
  assume run: "add_sale parse st inp = (r, st', inp')"
  have change: "books st' = books st \<or>
      (\<exists>k q book. select_book st k = Some book \<and> 0 < q \<and> q \<le> bstock book \<and>
         books st' =
           map (\<lambda>r. if bid r = k then r\<lparr>bstock := bstock r - q\<rparr> else r) (books st))"
  proof (cases "st' = st")
    case True
    then show ?thesis by simp
  next
    case False
    with add_sale_store_cases [OF run] obtain tot where r: "r = Inr (SaleAdded tot)" by blast
    from run [unfolded r] obtain l1 l2 l3 inp3 book q inp4 disc st1 where
      bk: "select_book st (strip l3) = Some book" and
      qq: "input_int parse True False inp3 = Some (q, inp4)" and
      le: "q \<le> bstock book" and
      ins: "insert_sale st (strip l1) (strip l2) (strip l3) q disc tot = Some st1" and
      st': "st' = update_stock st1 q (strip l3)"
      by (elim add_sale_added_cases) auto
    have "books st' =
        map (\<lambda>r. if bid r = strip l3 then r\<lparr>bstock := bstock r - q\<rparr> else r) (books st)"
      using st' insert_sale_frame(1) [OF ins] by (simp add: update_stock_def)
    with bk le input_int_positive [OF qq] show ?thesis by blast
  qed
  moreover have "\<forall>b \<in> set (books st'). 0 \<le> bstock b"
    using change
  proof
    assume "books st' = books st"
    with assms(2) show ?thesis by simp
  next
    assume "\<exists>k q book. select_book st k = Some book \<and> 0 < q \<and> q \<le> bstock book \<and>
         books st' =
           map (\<lambda>r. if bid r = k then r\<lparr>bstock := bstock r - q\<rparr> else r) (books st)"
    then obtain k q book where bk: "select_book st k = Some book" and le: "q \<le> bstock book"
      and eq: "books st' =
           map (\<lambda>r. if bid r = k then r\<lparr>bstock := bstock r - q\<rparr> else r) (books st)"
      by blast
    show ?thesis
    proof
      fix b assume "b \<in> set (books st')"
      then obtain r0 where r0: "r0 \<in> set (books st)"
        and b: "b = (if bid r0 = k then r0\<lparr>bstock := bstock r0 - q\<rparr> else r0)"
        unfolding eq by auto
      show "0 \<le> bstock b"
      proof (cases "bid r0 = k")
        case True
        from find_key_unique [OF assms(1) bk [unfolded select_book_def] r0 True]
        have "r0 = book" .
        with True b le show ?thesis by simp
      next
        case False
        with b r0 assms(2) show ?thesis by simp
      qed
    qed
  qed
  moreover have "map bid (books st') = map bid (books st)"
    using change by (auto simp: comp_def if_distrib cong: if_cong)
  ultimately show "\<forall>b \<in> set (books st'). 0 \<le> bstock b"
    and "map bid (books st') = map bid (books st)"
    and "books st' = books st \<or>
      (\<exists>k q book. select_book st k = Some book \<and> 0 < q \<and> q \<le> bstock book \<and>
         books st' =
           map (\<lambda>r. if bid r = k then r\<lparr>bstock := bstock r - q\<rparr> else r) (books st))"
    by blast+
next
  assume "update_sale parse st inp = (r, st', inp')"
  then show "books st' = books st" by (rule update_sale_books)
next
  assume "delete_sale parse st inp = (r, st', inp')"
  then show "books st' = books st" by (rule delete_sale_books)
next
  assume "show_report st inp = (r, st', inp')"
  then show "books st' = books st" by (simp add: show_report_def)
qed

theorem stock_never_negative_witness:
  "distinct (map bid (books (initialize_database empty_store))) \<and>
   list_all (\<lambda>b. 0 \<le> bstock b) (books (initialize_database empty_store)) \<and>
   fst (add_sale read_decimal (initialize_database empty_store)
     [''2024-02-01'', ''M001'', ''B003'', ''20'', ''0'']) = Inr (SaleAdded 24000) \<and>
   map bstock (books (fst (snd (add_sale read_decimal (initialize_database empty_store)
     [''2024-02-01'', ''M001'', ''B003'', ''20'', ''0''])))) = [50, 30, 0] \<and>
   list_all (\<lambda>b. 0 \<le> bstock b)
     (books (fst (snd (add_sale read_decimal (initialize_database empty_store)
       [''2024-02-01'', ''M001'', ''B003'', ''20'', ''0''])))) \<and>
   fst (update_sale read_decimal (initialize_database empty_store) [''3'', ''500'']) =
     Inr (SaleUpdated 3 3100) \<and>
   books (fst (snd (update_sale read_decimal (initialize_database empty_store)
     [''3'', ''500'']))) = books (initialize_database empty_store) \<and>
   fst (delete_sale read_decimal (initialize_database empty_store) [''2'']) =
     Inr (SaleDeleted 2) \<and>
   books (fst (snd (delete_sale read_decimal (initialize_database empty_store) [''2'']))) =
     books (initialize_database empty_store) \<and>
   books (fst (snd (show_report (initialize_database empty_store) []))) =
     books (initialize_database empty_store)"
proof -
  let ?st = "initialize_database empty_store"
  let ?add = "add_sale read_decimal ?st [''2024-02-01'', ''M001'', ''B003'', ''20'', ''0'']"
  let ?upd = "update_sale read_decimal ?st [''3'', ''500'']"
  let ?del = "delete_sale read_decimal ?st [''2'']"
  let ?rep = "show_report ?st []"
  have keys: "distinct (map bid (books ?st))"
    using primary_keys_seeded by (simp add: primary_keys_def)
  have pos: "\<forall>b \<in> set (books ?st). 0 \<le> bstock b"
    by (simp add: initialize_database_empty seed_books_def)
  have add: "fst ?add = Inr (SaleAdded 24000)"
    and stock: "map bstock (books (fst (snd ?add))) = [50, 30, 0]"
    by (simp_all add: initialize_database_empty add_sale_def strip_def isspace_def
        DATE_FORMAT_LENGTH_def select_member_def select_book_def seed_members_def
        seed_books_def seed_sales_def read_decimal_def fits_integer_def insert_sale_def
        new_rowid_def MAX_ROWID_def update_stock_def Let_def)
  have upd: "fst ?upd = Inr (SaleUpdated 3 3100)"
    unfolding update_sale_def list_sales_seeded
    by (simp add: choose_sale_def read_decimal_def strip_def isspace_def Let_def
        initialize_database_empty select_sale_def select_book_def seed_sales_def
        seed_books_def fits_integer_def)
  have del: "fst ?del = Inr (SaleDeleted 2)"
    unfolding delete_sale_def list_sales_seeded
    by (simp add: choose_sale_def read_decimal_def strip_def isspace_def Let_def)
  note inv = stock_never_negative [OF keys pos]
  have "?add = (fst ?add, fst (snd ?add), snd (snd ?add))" by simp
  from inv [THEN conjunct1, rule_format, OF this]
  have a: "list_all (\<lambda>b. 0 \<le> bstock b) (books (fst (snd ?add)))"
    by (simp add: list_all_iff)
  have "?upd = (fst ?upd, fst (snd ?upd), snd (snd ?upd))" by simp
  from inv [THEN conjunct2, THEN conjunct1, rule_format, OF this]
  have u: "books (fst (snd ?upd)) = books ?st" .
  have "?del = (fst ?del, fst (snd ?del), snd (snd ?del))" by simp
  from inv [THEN conjunct2, THEN conjunct2, THEN conjunct1, rule_format, OF this]
  have d: "books (fst (snd ?del)) = books ?st" .
  have "?rep = (fst ?rep, fst (snd ?rep), snd (snd ?rep))" by simp
  from inv [THEN conjunct2, THEN conjunct2, THEN conjunct2, rule_format, OF this]
  have p: "books (fst (snd ?rep)) = books ?st" .
  from keys pos add stock a upd u del d p show ?thesis by (simp add: list_all_iff)
qed

section \<open>The two listings\<close>

text \<open>
  Claim C8. In every store, the rows of \<^verbatim>\<open>list_sales\<close> and the rows that
  \<^verbatim>\<open>show_report\<close> prints are in non-decreasing order of \<^verbatim>\<open>sid\<close>.
\<close>

theorem listings_sorted:
  "sorted (map l_sid (list_sales st)) \<and> sorted (map r_sid (report_rows st)) \<and>
   fst (show_report st inp) = Inr (Reported (report_rows st))"
  by (simp add: list_sales_def report_rows_def show_report_def)

text \<open>
  Claim C9. \<^verbatim>\<open>show_report\<close> returns the store and the console it was given, and a second
  call on the store it returns prints the same rows.
\<close>

theorem show_report_pure:
  "snd (show_report st inp) = (st, inp) \<and>
   fst (show_report (fst (snd (show_report st inp))) inp2) = fst (show_report st inp)"
  by (simp add: show_report_def)

end
